theory Spec2Isabelle
  imports Main "HOL-Library.Word"
begin

section \<open>Text formatting used by the helpers\<close>

text \<open>
  The helpers of \<^verbatim>\<open>pkg/logger/helpers.go\<close> format through \<^verbatim>\<open>fmt.Sprintf\<close>.
  The verbs they use are written out here: \<^verbatim>\<open>%d\<close> on an \<^verbatim>\<open>int64\<close> and
  \<^verbatim>\<open>%.1f\<close> on a \<^verbatim>\<open>float64\<close>.
\<close>

definition digit_char :: "int \<Rightarrow> char" where
  "digit_char d = char_of (48 + d)"

text \<open>The decimal digits of a non-negative integer, most significant first.\<close>

function show_nat :: "int \<Rightarrow> string" where
  "show_nat n = (if n < 10 then [digit_char n] else show_nat (n div 10) @ [digit_char (n mod 10)])"
  by pat_completeness auto
termination
  by (relation "measure nat") auto

declare show_nat.simps [simp del]

text \<open>\<^verbatim>\<open>%d\<close>: a minus sign for a negative value, then the decimal digits of its magnitude.\<close>

definition Sprintf_d :: "int \<Rightarrow> string" where
  "Sprintf_d i = (if i < 0 then CHR ''-'' # show_nat (- i) else show_nat i)"

text \<open>
  Reading decimal text back: \<open>read_nat\<close> takes a digit string to its value and
  \<open>read_int\<close> accepts a leading minus sign. They state what it means for a string to
  be the decimal representation of an integer.
\<close>

definition digit_val :: "char \<Rightarrow> int" where
  "digit_val c = of_char c - 48"

definition read_nat :: "string \<Rightarrow> int" where
  "read_nat s = foldl (\<lambda>acc c. 10 * acc + digit_val c) 0 s"

definition read_int :: "string \<Rightarrow> int" where
  "read_int s =
     (case s of [] \<Rightarrow> 0 | c # r \<Rightarrow> if c = CHR ''-'' then - read_nat r else read_nat s)"

subsection \<open>The float64 values that FormatBytes computes\<close>

text \<open>
  A positive \<^verbatim>\<open>float64\<close> is kept as an exact fraction \<open>(p, q)\<close> of integers, \<open>p \<ge> 0\<close> and \<open>q > 0\<close>.
  Every float64 operation returns the representable value nearest to the exact result,
  ties to the even significand; a float64 has a significand of 53 bits. The exponent
  range (overflow, subnormal numbers) is not modelled: FormatBytes only forms values
  between 1 and \<open>2 ^ 63\<close>.
\<close>

type_synonym float64 = "int \<times> int"

text \<open>The number of binary digits of a positive integer.\<close>

function bitlen :: "int \<Rightarrow> nat" where
  "bitlen n = (if n \<le> 0 then 0 else Suc (bitlen (n div 2)))"
  by pat_completeness auto
termination
  by (relation "measure nat") auto

declare bitlen.simps [simp del]

text \<open>The integer nearest to \<open>p / q\<close>, ties to even.\<close>

definition round_half_even :: "int \<Rightarrow> int \<Rightarrow> int" where
  "round_half_even p q =
     (let d = p div q; r = p mod q
      in if q < 2 * r \<or> (2 * r = q \<and> d mod 2 = 1) then d + 1 else d)"

text \<open>
  \<open>round53 (p, q)\<close> is the float64 nearest to the positive fraction \<open>p / q\<close>.
  With \<open>e = bitlen p - bitlen q\<close> the fraction lies strictly between \<open>2 ^ (e - 1)\<close>
  and \<open>2 ^ (e + 1)\<close>; \<open>fl\<close> is the exponent of its leading bit, and the fraction is
  rounded to a multiple of \<open>2 ^ (fl - 52)\<close>.
\<close>

definition round53 :: "float64 \<Rightarrow> float64" where
  "round53 x =
     (let p = fst x; q = snd x
      in if p \<le> 0 then (0, 1)
         else
           let e = int (bitlen p) - int (bitlen q);
               ge = (if 0 \<le> e then q * 2 ^ nat e \<le> p else q \<le> p * 2 ^ nat (- e));
               fl = (if ge then e else e - 1);
               k = fl - 52
           in if 0 \<le> k
              then (round_half_even p (q * 2 ^ nat k) * 2 ^ nat k, 1)
              else (round_half_even (p * 2 ^ nat (- k)) q, 2 ^ nat (- k)))"

text \<open>\<^verbatim>\<open>float64(x)\<close> for a non-negative \<^verbatim>\<open>int64\<close> \<open>x\<close>.\<close>

definition float64_of_int64 :: "int \<Rightarrow> float64" where
  "float64_of_int64 i = round53 (i, 1)"

text \<open>\<^verbatim>\<open>a / b\<close> on positive float64 values.\<close>

definition float64_div :: "float64 \<Rightarrow> float64 \<Rightarrow> float64" where
  "float64_div a b = round53 (fst a * snd b, snd a * fst b)"

text \<open>
  \<^verbatim>\<open>%.1f\<close>: the exact value is rounded to one decimal place, ties to even
  (\<^verbatim>\<open>strconv\<close> converts the binary value exactly and rounds the decimal digits).
\<close>

definition Sprintf_1f :: "float64 \<Rightarrow> string" where
  "Sprintf_1f x =
     (let t = round_half_even (10 * fst x) (snd x)
      in show_nat (t div 10) @ ''.'' @ [digit_char (t mod 10)])"

section \<open>FormatBytes\<close>

text \<open>
  \<^verbatim>\<open>int64\<close> arithmetic: the argument is a 64-bit word read as two's complement
  (\<open>sint\<close>); a product wraps around; \<^verbatim>\<open>/\<close> truncates towards zero.
\<close>

type_synonym int64 = "64 word"

definition int64_wrap :: "int \<Rightarrow> int" where
  "int64_wrap i = sint (word_of_int i :: 64 word)"

definition int64_quot :: "int \<Rightarrow> int \<Rightarrow> int" where
  "int64_quot a b = sgn a * sgn b * (\<bar>a\<bar> div \<bar>b\<bar>)"

datatype panic = IndexOutOfRange

text \<open>
  The loop \<^verbatim>\<open>for n := bytes / unit; n >= unit; n /= unit { div *= unit; exp++ }\<close>,
  as a function of its three variables; it returns \<open>(div, exp)\<close>. The constant
  \<^verbatim>\<open>unit\<close> is 1024.
\<close>

function FormatBytes_loop :: "int \<Rightarrow> int \<Rightarrow> nat \<Rightarrow> int \<times> nat" where
  "FormatBytes_loop n dv ex =
     (if 1024 \<le> n
      then FormatBytes_loop (int64_quot n 1024) (int64_wrap (dv * 1024)) (ex + 1)
      else (dv, ex))"
  by pat_completeness auto
termination
  by (relation "measure (\<lambda>(n, dv, ex). nat n)") (auto simp: int64_quot_def)

declare FormatBytes_loop.simps [simp del]

text \<open>
  Indexing the string \<^verbatim>\<open>"KMGTPE"\<close> panics when the index is not below its length.
\<close>

definition FormatBytes :: "int64 \<Rightarrow> panic + string" where
  "FormatBytes bytes =
     (let b = sint bytes
      in if b < 1024 then Inr (Sprintf_d b @ '' B'')
         else
           let (dv, ex) = FormatBytes_loop (int64_quot b 1024) 1024 0
           in if ex < length ''KMGTPE''
              then Inr (Sprintf_1f (float64_div (float64_of_int64 b) (float64_of_int64 dv))
                        @ '' '' @ [''KMGTPE'' ! ex] @ ''B'')
              else Inl IndexOutOfRange)"

section \<open>Environment resolver, fixed-default mode\<close>

text \<open>
  The process environment is a partial map from names to values. \<^verbatim>\<open>os.Getenv\<close>
  returns the value, and the empty string when the variable is not present.
\<close>

type_synonym env = "string \<rightharpoonup> string"

definition Getenv :: "env \<Rightarrow> string \<Rightarrow> string" where
  "Getenv env key = (case env key of None \<Rightarrow> [] | Some v \<Rightarrow> v)"

definition getEnv :: "env \<Rightarrow> string \<Rightarrow> string \<Rightarrow> string" where
  "getEnv env key defaultValue =
     (let value = Getenv env key in if value \<noteq> [] then value else defaultValue)"

text \<open>
  \<^verbatim>\<open>strings.ToLower\<close> on the bytes of a string: the letters \<^verbatim>\<open>A\<close> to \<^verbatim>\<open>Z\<close> go to
  \<^verbatim>\<open>a\<close> to \<^verbatim>\<open>z\<close>. Bytes outside ASCII are left as they are; Go maps the runes
  they encode, and none of them to an ASCII letter of \<^verbatim>\<open>"true"\<close>, so the comparison
  with \<^verbatim>\<open>"true"\<close> in \<open>getEnvBool\<close> has the same outcome.
\<close>

definition lower_char :: "char \<Rightarrow> char" where
  "lower_char c =
     (let n = (of_char c :: int) in if 65 \<le> n \<and> n \<le> 90 then char_of (n + 32) else c)"

definition ToLower :: "string \<Rightarrow> string" where
  "ToLower s = map lower_char s"

definition getEnvBool :: "env \<Rightarrow> string \<Rightarrow> bool \<Rightarrow> bool" where
  "getEnvBool env key defaultValue =
     (let value = Getenv env key
      in if value = [] then defaultValue
         else ToLower value = ''true'' \<or> value = ''1'')"

text \<open>
  Modelled from the spec: the \<^verbatim>\<open>Config\<close> struct is declared outside the given sources;
  its fields are those of the spec's data model. \<open>InitFromEnv\<close> sets five of them and
  leaves \<open>Timezone\<close> at the zero value of its type.
\<close>

record Config =
  Level :: string
  Format :: string
  Output :: string
  AddSource :: bool
  TimeFormat :: string
  Timezone :: string

section \<open>Errors\<close>

text \<open>
  A non-nil Go \<^verbatim>\<open>error\<close> is a message, possibly wrapping another error; an
  \<^verbatim>\<open>error\<close> value is \<open>None\<close> when it is nil.
\<close>

datatype go_error = errorString string | wrapError string go_error

fun Error_of :: "go_error \<Rightarrow> string" where
  "Error_of (errorString s) = s"
| "Error_of (wrapError s e) = s"


text \<open>
  \<^verbatim>\<open>fmt.Errorf("%s: %w", msg, err)\<close>. With a nil \<^verbatim>\<open>err\<close> the verb has no error to
  wrap and prints its bad-verb text.
\<close>

definition Errorf_s_w :: "string \<Rightarrow> go_error option \<Rightarrow> go_error" where
  "Errorf_s_w msg err =
     (case err of
        Some e \<Rightarrow> wrapError (msg @ '': '' @ Error_of e) e
      | None \<Rightarrow> errorString (msg @ '': %!w(<nil>)''))"

text \<open>
  \<open>InitFromEnv\<close> ends in \<^verbatim>\<open>Init(cfg)\<close>, which validates the configuration, builds the
  logger and installs it. \<^verbatim>\<open>Init\<close> is declared outside the given sources, so it is a
  parameter here: any function from a configuration and the process state \<open>'w\<close> to an
  error result and a new state.
\<close>

definition InitFromEnv ::
  "(Config \<Rightarrow> 'w \<Rightarrow> go_error option \<times> 'w) \<Rightarrow> env \<Rightarrow> 'w \<Rightarrow> go_error option \<times> 'w" where
  "InitFromEnv Init env w =
     (let cfg = \<lparr> Level = getEnv env ''LOG_LEVEL'' ''INFO'',
                  Format = getEnv env ''LOG_FORMAT'' ''color'',
                  Output = getEnv env ''LOG_OUTPUT'' ''stdout'',
                  AddSource = getEnvBool env ''LOG_ADD_SOURCE'' True,
                  TimeFormat = getEnv env ''LOG_TIME_FORMAT'' ''rfc3339ms'',
                  Timezone = [] \<rparr>
      in Init cfg w)"

section \<open>The logging engine, as the helpers use it\<close>

text \<open>
  Values of type \<^verbatim>\<open>any\<close>: what a caller passes as attributes and what a context
  returns from \<^verbatim>\<open>Value\<close>. A \<^verbatim>\<open>*slog.Logger\<close> is an address, \<open>None\<close> for the nil
  pointer.
\<close>

datatype any =
    AnyNil
  | AnyString string
  | AnyInt int
  | AnyBool bool
  | AnyError go_error
  | AnyLogger "nat option"

text \<open>Converting an \<^verbatim>\<open>error\<close> to \<^verbatim>\<open>any\<close>: a nil error is the nil interface value.\<close>

definition any_of_error :: "go_error option \<Rightarrow> any" where
  "any_of_error err = (case err of None \<Rightarrow> AnyNil | Some e \<Rightarrow> AnyError e)"

datatype slog_Level = LevelDebug | LevelInfo | LevelWarn | LevelError

record log_call =
  call_level :: slog_Level
  call_msg :: string
  call_args :: "any list"

text \<open>
  The process state the helpers touch: the address of the process-wide default logger
  (\<^verbatim>\<open>slog.Default()\<close>, never nil), the handler behind each logger address, and the state
  \<open>'s\<close> of the sinks the handlers write to. A handler takes a log call and the sink
  state; it returns its error result (\<open>None\<close> when the write succeeded) and the new
  sink state.
\<close>

record 's world =
  default_logger :: nat
  handle :: "nat \<Rightarrow> log_call \<Rightarrow> 's \<Rightarrow> go_error option \<times> 's"
  sink :: 's

definition slog_Default :: "'s world \<Rightarrow> nat" where
  "slog_Default w = default_logger w"

text \<open>
  \<^verbatim>\<open>(*Logger).log\<close> hands the call to the logger's handler and drops the handler's
  error result. Whether the handler has the level enabled is part of what the handler
  does with the call: a handler that has it disabled leaves the sink as it is.
\<close>

definition Logger_log :: "nat \<Rightarrow> slog_Level \<Rightarrow> string \<Rightarrow> any list \<Rightarrow> 's world \<Rightarrow> 's world" where
  "Logger_log l lv m as w =
     w\<lparr> sink := snd (handle w l \<lparr> call_level = lv, call_msg = m, call_args = as \<rparr> (sink w)) \<rparr>"

definition Logger_Error :: "nat \<Rightarrow> string \<Rightarrow> any list \<Rightarrow> 's world \<Rightarrow> 's world" where
  "Logger_Error l m as w = Logger_log l LevelError m as w"

definition slog_Debug :: "string \<Rightarrow> any list \<Rightarrow> 's world \<Rightarrow> 's world" where
  "slog_Debug m as w = Logger_log (slog_Default w) LevelDebug m as w"

definition slog_Info :: "string \<Rightarrow> any list \<Rightarrow> 's world \<Rightarrow> 's world" where
  "slog_Info m as w = Logger_log (slog_Default w) LevelInfo m as w"

definition slog_Warn :: "string \<Rightarrow> any list \<Rightarrow> 's world \<Rightarrow> 's world" where
  "slog_Warn m as w = Logger_log (slog_Default w) LevelWarn m as w"

definition slog_Error :: "string \<Rightarrow> any list \<Rightarrow> 's world \<Rightarrow> 's world" where
  "slog_Error m as w = Logger_log (slog_Default w) LevelError m as w"

section \<open>LogError, LogAndWrap and the level shortcuts\<close>

text \<open>
  Modelled from the spec: \<^verbatim>\<open>loggerKey\<close>, the key under which a context carries its
  logger reference, is declared outside the given sources. A context may hold values
  under other keys.
\<close>

datatype ctx_key = loggerKey | otherKey string

text \<open>
  The argument \<^verbatim>\<open>ctx interface{}\<close> of \<open>LogError\<close>: the nil interface value, a value
  whose type has no method \<^verbatim>\<open>Value(key any) any\<close>, or a value that has one (a
  context), given by what the method returns for each key. The method belongs to the
  caller's context type; it is taken to return a value for every key.
\<close>

datatype ctx = NilCtx | NoValueMethod any | HasValue "ctx_key \<Rightarrow> any"

definition LogError ::
  "ctx \<Rightarrow> string \<Rightarrow> go_error option \<Rightarrow> any list \<Rightarrow> 's world \<Rightarrow> go_error option \<times> 's world" where
  "LogError ctx msg err attrs w =
     (let logger0 = (None :: nat option);
          logger1 = (case ctx of
                       HasValue c \<Rightarrow> (case c loggerKey of AnyLogger l \<Rightarrow> l | _ \<Rightarrow> logger0)
                     | _ \<Rightarrow> logger0);
          logger2 = (case logger1 of None \<Rightarrow> slog_Default w | Some l \<Rightarrow> l);
          allAttrs = [AnyString ''error'', any_of_error err] @ attrs;
          w' = Logger_Error logger2 msg allAttrs w
      in (err, w'))"

definition LogAndWrap ::
  "string \<Rightarrow> go_error option \<Rightarrow> any list \<Rightarrow> 's world \<Rightarrow> go_error option \<times> 's world" where
  "LogAndWrap msg err attrs w =
     (let allAttrs = [AnyString ''error'', any_of_error err] @ attrs;
          w' = slog_Error msg allAttrs w
      in (Some (Errorf_s_w msg err), w'))"

definition Debug :: "string \<Rightarrow> any list \<Rightarrow> 's world \<Rightarrow> 's world" where
  "Debug msg attrs w = slog_Debug msg attrs w"

definition Info :: "string \<Rightarrow> any list \<Rightarrow> 's world \<Rightarrow> 's world" where
  "Info msg attrs w = slog_Info msg attrs w"

definition Warn :: "string \<Rightarrow> any list \<Rightarrow> 's world \<Rightarrow> 's world" where
  "Warn msg attrs w = slog_Warn msg attrs w"

definition Error :: "string \<Rightarrow> any list \<Rightarrow> 's world \<Rightarrow> 's world" where
  "Error msg attrs w = slog_Error msg attrs w"

section \<open>Notions of the specification\<close>

text \<open>
  A value that the specification reads as true: it equals \<^verbatim>\<open>"true"\<close> up to the case
  of each letter, or it is the literal \<^verbatim>\<open>"1"\<close>.
\<close>

definition true_text :: "string \<Rightarrow> bool" where
  "true_text v =
     (list_all2 (\<lambda>c p. c = fst p \<or> c = snd p) v
        [(CHR ''t'', CHR ''T''), (CHR ''r'', CHR ''R''),
         (CHR ''u'', CHR ''U''), (CHR ''e'', CHR ''E'')]
      \<or> v = ''1'')"

text \<open>
  The boolean parse in the words of the specification, for a variable with value \<open>v\<close>
  (the empty string when it is absent) and default \<open>d\<close>: a true value is true;
  "anything else (including absence) is false unless the default is true".
\<close>

definition spec_bool_parse :: "string \<Rightarrow> bool \<Rightarrow> bool" where
  "spec_bool_parse v d = (true_text v \<or> d)"

text \<open>
  The logger associated with a value passed as context: the non-nil logger reference
  that it carries under \<open>loggerKey\<close>, if there is one. Nothing is associated with the nil
  interface value, with a value that is not a context, with a context that holds
  nothing or something else under the key, or with one that holds the nil pointer.
\<close>

definition ctx_logger :: "ctx \<Rightarrow> nat option" where
  "ctx_logger c =
     (case c of
        HasValue v \<Rightarrow> (case v loggerKey of AnyLogger (Some l) \<Rightarrow> Some l | _ \<Rightarrow> None)
      | _ \<Rightarrow> None)"

subsection \<open>Concrete inputs\<close>

text \<open>
  A process whose default logger is at address 1. Every handler appends the logger's
  address and the call to the sink; the handler of the default logger also reports a
  failed write.
\<close>

definition example_world :: "(nat \<times> log_call) list world" where
  "example_world =
     \<lparr> default_logger = 1,
       handle = (\<lambda>l c s. (if l = 1 then Some (errorString ''write failed'') else None,
                           s @ [(l, c)])),
       sink = [] \<rparr>"

text \<open>A context that holds the given logger pointer under \<open>loggerKey\<close> and nothing else.\<close>

definition example_ctx :: "nat option \<Rightarrow> ctx" where
  "example_ctx p = HasValue (\<lambda>k. case k of loggerKey \<Rightarrow> AnyLogger p | otherKey n \<Rightarrow> AnyNil)"

text \<open>An initialiser that always succeeds and keeps the configuration it was given.\<close>

definition example_Init :: "Config \<Rightarrow> Config option \<Rightarrow> go_error option \<times> Config option" where
  "example_Init cfg w = (None, Some cfg)"

section \<open>Decimal text\<close>

lemma read_nat_snoc: "read_nat (s @ [c]) = 10 * read_nat s + digit_val c"
  by (simp add: read_nat_def)

lemma digit_val_digit_char: "0 \<le> d \<Longrightarrow> d < 10 \<Longrightarrow> digit_val (digit_char d) = d"
  by (simp add: digit_val_def digit_char_def)

lemma read_nat_show_nat: "0 \<le> n \<Longrightarrow> read_nat (show_nat n) = n"
proof (induction n rule: show_nat.induct)
  case (1 n)
  show ?case
  proof (cases "n < 10")
    case True
    with 1(2) show ?thesis
      by (subst show_nat.simps) (simp add: read_nat_def digit_val_digit_char)
  next
    case False
    with 1 have IH: "read_nat (show_nat (n div 10)) = n div 10" by simp
    have d: "digit_val (digit_char (n mod 10)) = n mod 10"
      by (simp add: digit_val_digit_char)
    from False show ?thesis
      by (subst show_nat.simps) (simp add: read_nat_snoc IH d)
  qed
qed

lemma digit_char_not_minus: "0 \<le> d \<Longrightarrow> d < 10 \<Longrightarrow> digit_char d \<noteq> CHR ''-''"
proof
  assume a: "0 \<le> d" "d < 10" "digit_char d = CHR ''-''"
  then have "digit_val (digit_char d) = digit_val (CHR ''-'')" by simp
  with a(1,2) show False by (simp add: digit_val_digit_char) (simp add: digit_val_def)
qed

lemma show_nat_hd: "0 \<le> n \<Longrightarrow> \<exists>c r. show_nat n = c # r \<and> c \<noteq> CHR ''-''"
proof (induction n rule: show_nat.induct)
  case (1 n)
  show ?case
  proof (cases "n < 10")
    case True
    with 1(2) show ?thesis
      by (subst show_nat.simps) (simp add: digit_char_not_minus)
  next
    case False
    from 1(2) have "0 \<le> n div 10" by simp
    with False 1(1) obtain c r where "show_nat (n div 10) = c # r" "c \<noteq> CHR ''-''" by auto
    with False show ?thesis
      by (subst show_nat.simps) simp
  qed
qed

text \<open>\<open>Sprintf_d\<close> writes the decimal representation: reading it back gives the integer.\<close>

lemma read_int_Sprintf_d: "read_int (Sprintf_d i) = i"
proof (cases "i < 0")
  case True
  then show ?thesis by (simp add: Sprintf_d_def read_int_def read_nat_show_nat)
next
  case False
  then obtain c r where "show_nat i = c # r" "c \<noteq> CHR ''-''"
    using show_nat_hd [of i] by auto
  with False show ?thesis
    using read_nat_show_nat [of i] by (simp add: Sprintf_d_def read_int_def)
qed

section \<open>FormatBytes never panics\<close>

text \<open>
  The loop divides \<open>n\<close> by 1024 once for each increment of \<open>exp\<close>, so \<open>exp\<close> grows by
  at most \<open>k\<close> when \<open>n\<close> is below \<open>1024 ^ (k + 1)\<close>.
\<close>

lemma FormatBytes_loop_exp:
  "0 \<le> n \<Longrightarrow> n < 1024 ^ Suc k \<Longrightarrow> snd (FormatBytes_loop n dv ex) \<le> ex + k"
proof (induction k arbitrary: n dv ex)
  case 0
  then show ?case by (subst FormatBytes_loop.simps) simp
next
  case (Suc k)
  show ?case
  proof (cases "1024 \<le> n")
    case False
    then show ?thesis by (subst FormatBytes_loop.simps) simp
  next
    case True
    then have q: "int64_quot n 1024 = n div 1024" by (simp add: int64_quot_def)
    have lt: "n div 1024 < 1024 ^ Suc k" using Suc.prems by simp
    have ge: "0 \<le> n div 1024" using Suc.prems by simp
    have "snd (FormatBytes_loop (n div 1024) (int64_wrap (dv * 1024)) (ex + 1)) \<le> (ex + 1) + k"
      by (rule Suc.IH [OF ge lt])
    with True q show ?thesis by (subst FormatBytes_loop.simps) simp
  qed
qed

text \<open>
  An \<^verbatim>\<open>int64\<close> is below \<open>2 ^ 63\<close>, so the loop starts below \<open>2 ^ 53\<close> and leaves
  \<open>exp\<close> at 5 or less: the index into \<^verbatim>\<open>"KMGTPE"\<close> is always in range.
\<close>

lemma FormatBytes_no_panic: "\<exists>s. FormatBytes bytes = Inr s"
proof (cases "sint bytes < 1024")
  case True
  then show ?thesis by (simp add: FormatBytes_def)
next
  case False
  have "sint bytes < 2 ^ 63" using sint_lt [of bytes] by simp
  then have lt: "sint bytes div 1024 < 1024 ^ Suc 5" by simp
  from False have q: "int64_quot (sint bytes) 1024 = sint bytes div 1024"
    by (simp add: int64_quot_def)
  from False have ge: "0 \<le> sint bytes div 1024" by simp
  obtain dv ex where l: "FormatBytes_loop (sint bytes div 1024) 1024 0 = (dv, ex)"
    by (cases "FormatBytes_loop (sint bytes div 1024) 1024 0")
  have "snd (FormatBytes_loop (sint bytes div 1024) 1024 0) \<le> 0 + 5"
    by (rule FormatBytes_loop_exp [OF ge lt])
  with l have "ex < 6" by simp
  with False q l show ?thesis
    by (simp add: FormatBytes_def)
qed

section \<open>Case-insensitive comparison with "true"\<close>

lemma of_char_lower_char:
  "(of_char (lower_char c) :: int) =
     (if 65 \<le> (of_char c :: int) \<and> (of_char c :: int) \<le> 90 then of_char c + 32 else of_char c)"
  by (simp add: lower_char_def Let_def)

lemma lower_char_eq_iff:
  assumes lo: "(of_char lo :: int) = k" and up: "(of_char up :: int) = k - 32"
    and "97 \<le> k" "k \<le> 122"
  shows "lower_char c = lo \<longleftrightarrow> c = lo \<or> c = up"
proof -
  have "lower_char c = lo \<longleftrightarrow> (of_char (lower_char c) :: int) = of_char lo"
    by (simp only: of_char_eq_iff)
  also have "\<dots> \<longleftrightarrow> (of_char c :: int) = k \<or> (of_char c :: int) = k - 32"
    using assms(3,4) by (auto simp: of_char_lower_char lo)
  also have "\<dots> \<longleftrightarrow> (of_char c :: int) = of_char lo \<or> (of_char c :: int) = of_char up"
    by (simp only: lo up)
  also have "\<dots> \<longleftrightarrow> c = lo \<or> c = up"
    by (simp only: of_char_eq_iff)
  finally show ?thesis .
qed

lemma lower_char_t: "lower_char c = CHR ''t'' \<longleftrightarrow> c = CHR ''t'' \<or> c = CHR ''T''"
  by (rule lower_char_eq_iff [of _ 116]) simp_all

lemma lower_char_r: "lower_char c = CHR ''r'' \<longleftrightarrow> c = CHR ''r'' \<or> c = CHR ''R''"
  by (rule lower_char_eq_iff [of _ 114]) simp_all

lemma lower_char_u: "lower_char c = CHR ''u'' \<longleftrightarrow> c = CHR ''u'' \<or> c = CHR ''U''"
  by (rule lower_char_eq_iff [of _ 117]) simp_all

lemma lower_char_e: "lower_char c = CHR ''e'' \<longleftrightarrow> c = CHR ''e'' \<or> c = CHR ''E''"
  by (rule lower_char_eq_iff [of _ 101]) simp_all

text \<open>
  The test \<^verbatim>\<open>strings.ToLower(value) == "true"\<close> holds for exactly the sixteen
  spellings of \<^verbatim>\<open>"true"\<close> in upper and lower case letters.
\<close>

lemma ToLower_true_iff:
  "ToLower v = ''true'' \<longleftrightarrow>
   list_all2 (\<lambda>c p. c = fst p \<or> c = snd p) v
     [(CHR ''t'', CHR ''T''), (CHR ''r'', CHR ''R''),
      (CHR ''u'', CHR ''U''), (CHR ''e'', CHR ''E'')]"
  by (auto simp: ToLower_def map_eq_Cons_conv list_all2_Cons2
        lower_char_t lower_char_r lower_char_u lower_char_e)

section \<open>The log call that LogError makes\<close>

lemma LogError_unfold:
  "LogError c m err attrs w =
     (err, Logger_log (case ctx_logger c of Some l \<Rightarrow> l | None \<Rightarrow> slog_Default w)
             LevelError m (AnyString ''error'' # any_of_error err # attrs) w)"
  by (simp add: LogError_def ctx_logger_def Logger_Error_def
        split: ctx.splits any.splits option.splits)

section \<open>Properties of the fixed-default mode\<close>

text \<open>
  Claim C1. In fixed-default mode, \<open>InitFromEnv\<close> hands to \<^verbatim>\<open>Init\<close> a configuration
  in which each of the five variables that is absent or empty is replaced by its fixed
  default: \<^verbatim>\<open>INFO\<close>, \<^verbatim>\<open>color\<close>, \<^verbatim>\<open>stdout\<close>, true and \<^verbatim>\<open>rfc3339ms\<close>. A
  non-empty value of one of the four string variables is taken as it is; a non-empty
  \<^verbatim>\<open>LOG_ADD_SOURCE\<close> is read as a boolean.
\<close>

theorem InitFromEnv_fixed_defaults:
  "InitFromEnv Init env w =
     Init \<lparr> Level = (case env ''LOG_LEVEL'' of None \<Rightarrow> ''INFO''
                     | Some v \<Rightarrow> if v = [] then ''INFO'' else v),
            Format = (case env ''LOG_FORMAT'' of None \<Rightarrow> ''color''
                      | Some v \<Rightarrow> if v = [] then ''color'' else v),
            Output = (case env ''LOG_OUTPUT'' of None \<Rightarrow> ''stdout''
                      | Some v \<Rightarrow> if v = [] then ''stdout'' else v),
            AddSource = (case env ''LOG_ADD_SOURCE'' of None \<Rightarrow> True
                         | Some v \<Rightarrow> if v = [] then True else true_text v),
            TimeFormat = (case env ''LOG_TIME_FORMAT'' of None \<Rightarrow> ''rfc3339ms''
                          | Some v \<Rightarrow> if v = [] then ''rfc3339ms'' else v),
            Timezone = [] \<rparr> w"
  by (simp add: InitFromEnv_def getEnv_def getEnvBool_def Getenv_def true_text_def
        ToLower_true_iff split: option.splits)

theorem InitFromEnv_fixed_defaults_witness:
  "InitFromEnv example_Init
     [''LOG_LEVEL'' \<mapsto> ''DEBUG'', ''LOG_FORMAT'' \<mapsto> [], ''LOG_OUTPUT'' \<mapsto> ''/var/log/app.log'']
     None =
   (None, Some \<lparr> Level = ''DEBUG'', Format = ''color'', Output = ''/var/log/app.log'',
                 AddSource = True, TimeFormat = ''rfc3339ms'', Timezone = [] \<rparr>)"
  using InitFromEnv_fixed_defaults [of example_Init
    "[''LOG_LEVEL'' \<mapsto> ''DEBUG'', ''LOG_FORMAT'' \<mapsto> [], ''LOG_OUTPUT'' \<mapsto> ''/var/log/app.log'']"
    None]
  by (simp add: example_Init_def)

text \<open>
  Claim C2, as amended. When \<^verbatim>\<open>LOG_ADD_SOURCE\<close> is absent or empty, \<open>getEnvBool\<close>
  yields the default. When it is set to a non-empty value, the result is true exactly
  when the value equals \<^verbatim>\<open>"true"\<close> case-insensitively or is the literal \<^verbatim>\<open>"1"\<close>,
  and false for every other value, whatever the default is.
\<close>

theorem getEnvBool_parse:
  "getEnvBool env key d =
     (case env key of None \<Rightarrow> d | Some v \<Rightarrow> if v = [] then d else true_text v)"
  by (simp add: getEnvBool_def Getenv_def true_text_def ToLower_true_iff split: option.splits)

theorem getEnvBool_parse_witness:
  "getEnvBool [''LOG_ADD_SOURCE'' \<mapsto> ''True''] ''LOG_ADD_SOURCE'' False = True \<and>
   getEnvBool [''LOG_ADD_SOURCE'' \<mapsto> ''1''] ''LOG_ADD_SOURCE'' False = True \<and>
   getEnvBool [''LOG_ADD_SOURCE'' \<mapsto> ''yes''] ''LOG_ADD_SOURCE'' True = False \<and>
   getEnvBool [''LOG_ADD_SOURCE'' \<mapsto> []] ''LOG_ADD_SOURCE'' True = True \<and>
   getEnvBool Map.empty ''LOG_ADD_SOURCE'' False = False"
  using getEnvBool_parse [of "[''LOG_ADD_SOURCE'' \<mapsto> ''True'']" "''LOG_ADD_SOURCE''" False]
        getEnvBool_parse [of "[''LOG_ADD_SOURCE'' \<mapsto> ''1'']" "''LOG_ADD_SOURCE''" False]
        getEnvBool_parse [of "[''LOG_ADD_SOURCE'' \<mapsto> ''yes'']" "''LOG_ADD_SOURCE''" True]
        getEnvBool_parse [of "[''LOG_ADD_SOURCE'' \<mapsto> []]" "''LOG_ADD_SOURCE''" True]
        getEnvBool_parse [of Map.empty "''LOG_ADD_SOURCE''" False]
  by (simp add: true_text_def)

text \<open>
  Claim C2, as stated, has any value other than \<^verbatim>\<open>"true"\<close> and \<^verbatim>\<open>"1"\<close> yield false
  unless the default is true, so that a true default decides for every such value. With
  \<^verbatim>\<open>LOG_ADD_SOURCE=false\<close> the value is such an other value and the default is true,
  and the parse still yields false: the default is used for an absent or empty variable
  only.
\<close>

theorem getEnvBool_default_counterexample:
  "Getenv [''LOG_ADD_SOURCE'' \<mapsto> ''false''] ''LOG_ADD_SOURCE'' = ''false'' \<and>
   true_text ''false'' = False \<and>
   spec_bool_parse ''false'' True = True \<and>
   getEnvBool [''LOG_ADD_SOURCE'' \<mapsto> ''false''] ''LOG_ADD_SOURCE'' True = False"
  by (simp add: getEnvBool_def Getenv_def ToLower_def true_text_def spec_bool_parse_def)

text \<open>
  Claim C7. \<open>InitFromEnv\<close> builds one configuration from the environment and forwards
  it unchanged to \<^verbatim>\<open>Init\<close>, whatever \<^verbatim>\<open>Init\<close> does; the error result and the state
  that \<^verbatim>\<open>Init\<close> returns are what \<open>InitFromEnv\<close> returns, so it fails exactly when
  \<^verbatim>\<open>Init\<close> fails on that configuration and with the same error.
\<close>

theorem InitFromEnv_forwards_to_Init:
  "\<exists>cfg. \<forall>Init w. InitFromEnv Init env w = Init cfg w"
  by (simp add: InitFromEnv_def) blast

section \<open>Properties of FormatBytes\<close>

text \<open>
  Claim C4. \<open>FormatBytes 0\<close> is \<^verbatim>\<open>"0 B"\<close>, \<open>FormatBytes (1536 * 1024)\<close> is
  \<^verbatim>\<open>"1.5 MB"\<close> and \<open>FormatBytes 1023\<close> is \<^verbatim>\<open>"1023 B"\<close>.
\<close>

theorem FormatBytes_examples:
  "FormatBytes 0 = Inr ''0 B'' \<and>
   FormatBytes (1536 * 1024) = Inr ''1.5 MB'' \<and>
   FormatBytes 1023 = Inr ''1023 B''"
  by code_simp

text \<open>
  Claim C10. For every \<^verbatim>\<open>int64\<close> below 1024, zero and the negative values included,
  \<open>FormatBytes\<close> returns the decimal representation of the value followed by
  \<^verbatim>\<open>" B"\<close>, with no scaling to a larger unit: the text before \<^verbatim>\<open>" B"\<close> reads back
  as the value itself.
\<close>

theorem FormatBytes_below_unit:
  "sint bytes < 1024 \<Longrightarrow>
   FormatBytes bytes = Inr (Sprintf_d (sint bytes) @ '' B'') \<and>
   read_int (Sprintf_d (sint bytes)) = sint bytes"
  by (simp add: FormatBytes_def read_int_Sprintf_d)

theorem FormatBytes_below_unit_witness:
  "sint (- 5 :: int64) < 1024 \<and> FormatBytes (- 5) = Inr ''-5 B'' \<and> read_int ''-5'' = - 5"
proof -
  have h: "sint (- 5 :: int64) < 1024" by simp
  have t: "Sprintf_d (sint (- 5 :: int64)) = ''-5''" by code_simp
  from FormatBytes_below_unit [OF h] t h show ?thesis by simp
qed

section \<open>Properties of LogError and LogAndWrap\<close>



text \<open>
  Claim C5. \<open>LogError\<close> first looks up the logger that the context carries. Either a
  logger is associated with the context and the call goes to that logger, or none is
  and the call goes to the process-wide default logger; the level, the message and the
  attributes of the call are the same in both cases.
\<close>

theorem LogError_logger_resolution:
  "(\<exists>l. ctx_logger c = Some l \<and>
        LogError c m err attrs w =
          (err, Logger_log l LevelError m (AnyString ''error'' # any_of_error err # attrs) w))
   \<or> (ctx_logger c = None \<and>
        LogError c m err attrs w =
          (err, Logger_log (slog_Default w) LevelError m
                  (AnyString ''error'' # any_of_error err # attrs) w))"
  by (cases "ctx_logger c") (simp_all add: LogError_unfold)

theorem LogError_logger_resolution_witness:
  "ctx_logger (example_ctx (Some 2)) = Some 2 \<and>
   sink (snd (LogError (example_ctx (Some 2)) ''m'' None [AnyInt 7] example_world))
     = [(2, \<lparr> call_level = LevelError, call_msg = ''m'',
              call_args = [AnyString ''error'', AnyNil, AnyInt 7] \<rparr>)] \<and>
   ctx_logger (example_ctx None) = None \<and>
   sink (snd (LogError (example_ctx None) ''m'' None [AnyInt 7] example_world))
     = [(1, \<lparr> call_level = LevelError, call_msg = ''m'',
              call_args = [AnyString ''error'', AnyNil, AnyInt 7] \<rparr>)]"
  using LogError_logger_resolution [of "example_ctx (Some 2)" "''m''" None "[AnyInt 7]" example_world]
        LogError_logger_resolution [of "example_ctx None" "''m''" None "[AnyInt 7]" example_world]
  by (simp add: example_ctx_def example_world_def ctx_logger_def Logger_log_def
        slog_Default_def any_of_error_def)



text \<open>
  Claim C9. \<open>LogError\<close> and \<open>LogAndWrap\<close> put the pair of the key \<^verbatim>\<open>"error"\<close> and the
  error in front of the caller's attributes: the handler receives one call at the error
  level whose arguments are \<^verbatim>\<open>"error"\<close>, the error, and then the caller's attributes in
  their original order.
\<close>

theorem LogError_LogAndWrap_attrs:
  "sink (snd (LogError c m err attrs w)) =
     snd (handle w (case ctx_logger c of Some l \<Rightarrow> l | None \<Rightarrow> slog_Default w)
            \<lparr> call_level = LevelError, call_msg = m,
              call_args = [AnyString ''error'', any_of_error err] @ attrs \<rparr> (sink w)) \<and>
   sink (snd (LogAndWrap m err attrs w)) =
     snd (handle w (slog_Default w)
            \<lparr> call_level = LevelError, call_msg = m,
              call_args = [AnyString ''error'', any_of_error err] @ attrs \<rparr> (sink w))"
  by (simp add: LogError_unfold LogAndWrap_def slog_Error_def Logger_log_def)

theorem LogError_LogAndWrap_attrs_witness:
  "map (call_args \<circ> snd)
     (sink (snd (LogError NilCtx ''m'' (Some (errorString ''boom''))
                   [AnyString ''user_id'', AnyInt 42, AnyString ''retry'', AnyBool True]
                   example_world)))
     = [[AnyString ''error'', AnyError (errorString ''boom''),
         AnyString ''user_id'', AnyInt 42, AnyString ''retry'', AnyBool True]] \<and>
   map (call_args \<circ> snd)
     (sink (snd (LogAndWrap ''m'' (Some (errorString ''boom''))
                   [AnyString ''user_id'', AnyInt 42, AnyString ''retry'', AnyBool True]
                   example_world)))
     = [[AnyString ''error'', AnyError (errorString ''boom''),
         AnyString ''user_id'', AnyInt 42, AnyString ''retry'', AnyBool True]]"
  using LogError_LogAndWrap_attrs [of NilCtx "''m''" "Some (errorString ''boom'')"
          "[AnyString ''user_id'', AnyInt 42, AnyString ''retry'', AnyBool True]" example_world]
  by (simp add: ctx_logger_def slog_Default_def any_of_error_def example_world_def)

section \<open>Properties of the level shortcuts\<close>

text \<open>
  Claim C6. \<open>Debug\<close>, \<open>Info\<close>, \<open>Warn\<close> and \<open>Error\<close> pass their message and attributes
  unchanged to the process-wide default logger of the engine, each at its own level.
\<close>

theorem level_shortcuts_passthrough:
  "Debug m attrs w = Logger_log (slog_Default w) LevelDebug m attrs w \<and>
   Info m attrs w = Logger_log (slog_Default w) LevelInfo m attrs w \<and>
   Warn m attrs w = Logger_log (slog_Default w) LevelWarn m attrs w \<and>
   Error m attrs w = Logger_log (slog_Default w) LevelError m attrs w"
  by (simp add: Debug_def Info_def Warn_def Error_def
        slog_Debug_def slog_Info_def slog_Warn_def slog_Error_def)

end
